theory Spec2Isabelle
  imports Complex_Main "HOL-Library.AList" "HOL-Library.Sublist"
begin

section \<open>Strings\<close>

text \<open>
  A Python \<open>str\<close> is a sequence of Unicode code points; \<open>ord(ch)\<close> is the code point.
  String literals of the source are written with \<open>lit\<close>.
\<close>

type_synonym str = "nat list"

definition lit :: "string \<Rightarrow> str" where
  "lit s = map of_char s"

section \<open>The translatability classifier (app.py, lines 12-24 and 145-154)\<close>

text \<open>
  \<open>emojis\<close> is a dict whose keys are the listed code points; only key membership is used.
  Python's \<open>range(a, b)\<close> excludes \<open>b\<close>.
\<close>

definition emojis :: "nat set" where
  "emojis = set ([32] @
     [0x1F600 ..< 0x1F64F] @
     [0x1F300 ..< 0x1F5FF] @
     [0x1F680 ..< 0x1F6FF] @
     [0x2600 ..< 0x26FF] @
     [0x2700 ..< 0x27BF] @
     [0xFE00 ..< 0xFE0F] @
     [0x1F900 ..< 0x1F9FF] @
     [0x1F1E6 ..< 0x1F1FF] @
     [0x20D0 ..< 0x20FF])"

text \<open>
  The argument of \<open>detect_translatable\<close> is a string or a list (\<open>isinstance(src_texts, list)\<close>),
  whose elements are again strings or lists.
\<close>

datatype pyval = PStr str | PList "pyval list"

text \<open>The \<open>for ch in src_texts\<close> loop over one string, with its early \<open>return True\<close>.\<close>

fun for_ch :: "str \<Rightarrow> bool" where
  "for_ch [] = False"
| "for_ch (ch # cs) = (if \<not> (ch \<in> emojis) then True else for_ch cs)"

text \<open>Python's \<open>any\<close> over a generator: stops at the first true element.\<close>

fun detect_translatable :: "pyval \<Rightarrow> bool" where
  "detect_translatable (PList ts) = list_ex detect_translatable ts"
| "detect_translatable (PStr s) = for_ch s"

section \<open>The quota rule builder (app.py, lines 81-92 and 110-137)\<close>

datatype py_error = ValueError | TypeError | AttributeError



text \<open>
  \<open>int(x)\<close> on a number truncates towards zero. The float factor \<open>0.75 ** (n - 1)\<close> and the
  product with it are modelled by exact rationals; binary64 rounding is not modelled (the
  product is exact in binary64 as long as \<open>req_limit * 3 ^ (n - 1) < 2 ^ 53\<close>).
\<close>

definition py_trunc :: "rat \<Rightarrow> int" where
  "py_trunc x = (if 0 \<le> x then \<lfloor>x\<rfloor> else \<lceil>x\<rceil>)"


text \<open>
  The rules are closures that return a label; a label \<open>"{c} per minute"\<close>,
  \<open>"{c} per {n} hour"\<close>, \<open>"{c} per day"\<close> is represented by its numbers.
\<close>

datatype rule = minute_limits | hourly_limits int | daily_limits








subsection \<open>Concrete configurations\<close>

text \<open>
  An instance of \<open>py_int_str\<close> for the examples: Python's \<open>int\<close> restricted to non-empty
  strings of ASCII decimal digits, \<open>ValueError\<close> on anything else.
\<close>

fun ascii_digits :: "str \<Rightarrow> nat \<Rightarrow> nat option" where
  "ascii_digits [] acc = Some acc"
| "ascii_digits (ch # cs) acc =
     (if 48 \<le> ch \<and> ch \<le> 57 then ascii_digits cs (10 * acc + (ch - 48)) else None)"

definition int_of_ascii_digits :: "str \<Rightarrow> int option" where
  "int_of_ascii_digits s = (if s = [] then None else map_option int (ascii_digits s 0))"




section \<open>Deduplication of alternatives (app.py, lines 139-142)\<close>

text \<open>
  The list comprehension of \<open>filter_unique\<close> with its set \<open>seen\<close>: an element is kept when
  it is not in \<open>seen\<close>, and is then added to \<open>seen\<close> (\<open>seen_add\<close> returns \<open>None\<close>).
\<close>

fun filter_unique_loop :: "str list \<Rightarrow> str set \<Rightarrow> str list" where
  "filter_unique_loop [] seen = []"
| "filter_unique_loop (x # seq) seen =
     (if x \<in> seen then filter_unique_loop seq seen
      else x # filter_unique_loop seq (insert x seen))"

definition filter_unique :: "str list \<Rightarrow> str \<Rightarrow> str list" where
  "filter_unique seq extra = filter_unique_loop seq {extra, []}"

section \<open>The translate handler (app.py, lines 229-458)\<close>

subsection \<open>Requests, languages and the engine\<close>

text \<open>
  The request parameters as the handler binds them. \<open>req_q\<close> is \<open>json.get("q")\<close> or
  \<open>request.values.get("q")\<close> (a string or, in JSON, a list); \<open>req_source\<close> and \<open>req_target\<close>
  are the values returned by \<open>iso2model\<close> (of \<open>libretranslate.language\<close>) for the
  \<open>source\<close> and \<open>target\<close> parameters; \<open>req_alternatives\<close> is the \<open>alternatives\<close> parameter,
  \<open>None\<close> when the request has none (the handler then takes the default \<open>0\<close>), and otherwise
  an integer, a string or \<open>null\<close>. A form value is always a string. A JSON body is taken to
  be an object (\<open>get_json_dict\<close> aborts with status 400 on any other body before the handler
  reads a parameter).
\<close>

datatype target_val = TStr str | TList "str list"

datatype alt_val = AInt int | AStr str | ANull

record request =
  is_json :: bool
  req_q :: "pyval option"
  req_source :: "str option"
  req_target :: "target_val option"
  req_alternatives :: "alt_val option"

record language =
  code :: str
  name :: str

text \<open>
  A translator is its \<open>hypotheses(text, n)\<close> method: it returns the values of the
  hypotheses, or raises an exception \<open>e\<close>, represented by \<open>str(e)\<close>.
\<close>

type_synonym translator = "pyval \<Rightarrow> int \<Rightarrow> str + str list"

text \<open>
  What the handler takes from outside this file: the language registry
  (\<open>load_languages()\<close> and \<open>Language.get_translation\<close>), \<open>improve_translation_formatting\<close>,
  \<open>html.unescape\<close>, Python's \<open>int\<close> on a string (\<open>None\<close> for \<open>ValueError\<close>) and
  Python's \<open>str\<close> of a list of strings.
\<close>

record env =
  languages :: "language list"
  get_translation :: "language \<Rightarrow> language \<Rightarrow> translator option"
  improve_translation_formatting :: "pyval \<Rightarrow> str \<Rightarrow> str"
  unescape :: "str \<Rightarrow> str"
  py_int :: "str \<Rightarrow> int option"
  py_str_list :: "str list \<Rightarrow> str"

text \<open>
  The exceptions raised inside the \<open>try\<close> block, and \<open>str(e)\<close> for each:
  \<open>abort(400, description=d)\<close> raises werkzeug's \<open>BadRequest\<close>, a subclass of \<open>Exception\<close>
  whose \<open>str\<close> is \<open>"400 Bad Request: " + d\<close>; \<open>hypotheses[0]\<close> on an empty list raises
  \<open>IndexError\<close>; the engine raises an exception of its own.
\<close>

datatype exc = BadRequest str | IndexError | EngineError str

fun str_exc :: "exc \<Rightarrow> str" where
  "str_exc (BadRequest d) = lit ''400 Bad Request: '' @ d"
| "str_exc IndexError = lit ''list index out of range''"
| "str_exc (EngineError m) = m"

text \<open>
  How a call of the handler ends without a response: \<open>abort(status, description)\<close>
  reaching the framework, or an exception that no handler catches.
\<close>

datatype failure = Abort nat str | Uncaught py_error

text \<open>One call of \<open>translator.hypotheses\<close>: source language, target language, text, count.\<close>

type_synonym call = "language \<times> language \<times> pyval \<times> int"

subsection \<open>Python builtins used by the handler\<close>

fun truthy :: "pyval \<Rightarrow> bool" where
  "truthy (PStr s) = (s \<noteq> [])"
| "truthy (PList l) = (l \<noteq> [])"

fun truthy_target :: "target_val \<Rightarrow> bool" where
  "truthy_target (TStr s) = (s \<noteq> [])"
| "truthy_target (TList l) = (l \<noteq> [])"

fun py_int_val :: "(str \<Rightarrow> int option) \<Rightarrow> alt_val \<Rightarrow> py_error + int" where
  "py_int_val f (AInt n) = Inr n"
| "py_int_val f (AStr s) = (case f s of None \<Rightarrow> Inl ValueError | Some n \<Rightarrow> Inr n)"
| "py_int_val f ANull = Inl TypeError"

text \<open>
  \<open>str.splitlines()\<close>: lines end at \<open>\n\<close>, \<open>\r\<close>, \<open>\r\n\<close>, \<open>\v\<close>, \<open>\f\<close>, \<open>\x1c\<close>, \<open>\x1d\<close>,
  \<open>\x1e\<close>, \<open>\x85\<close>, U+2028 and U+2029; the line breaks are not kept, and a last line
  is returned only when it is not empty. The first argument is the line read so far.
\<close>

definition line_boundaries :: "nat set" where
  "line_boundaries = {10, 13, 11, 12, 28, 29, 30, 133, 8232, 8233}"

fun splitlines :: "str \<Rightarrow> str \<Rightarrow> str list" where
  "splitlines cur [] = (if cur = [] then [] else [cur])"
| "splitlines cur [ch] = (if ch \<in> line_boundaries then [cur] else [cur @ [ch]])"
| "splitlines cur (ch # ch' # cs) =
     (if ch = 13 \<and> ch' = 10 then cur # splitlines [] cs
      else if ch \<in> line_boundaries then cur # splitlines [] (ch' # cs)
      else splitlines (cur @ [ch]) (ch' # cs))"

text \<open>\<open>"\n".join(lines)\<close>.\<close>

fun join_newline :: "str list \<Rightarrow> str" where
  "join_newline [] = []"
| "join_newline [l] = l"
| "join_newline (l # l' # ls) = l @ [10] @ join_newline (l' # ls)"

subsection \<open>Parameters (lines 381-408)\<close>

text \<open>
  The first part of the handler, up to \<open>src_texts\<close>: it ends with an \<open>abort\<close>, with an
  uncaught exception, or with the values of \<open>num_alternatives\<close>, \<open>q\<close>, \<open>source_lang\<close> and
  \<open>target_lang\<close>. In the JSON branch \<open>int\<close> is applied to the \<open>alternatives\<close> value at
  line 386, outside of any \<open>try\<close>; line 401 applies it again inside \<open>try ... except
  ValueError\<close>. For a form request \<open>q\<close> is replaced by \<open>"\n".join(q.splitlines())\<close>; a list
  has no \<open>splitlines\<close> (\<open>AttributeError\<close>). Line 410 stores \<open>max(1, len(q))\<close> in the request
  context for the admission layer; nothing in the handler reads it.
\<close>

definition missing_param :: "string \<Rightarrow> str" where
  "missing_param p = lit ''Invalid request: missing '' @ [96] @ lit p @ [96] @ lit '' parameter''"

definition translate_params ::
  "env \<Rightarrow> request \<Rightarrow> failure + (int \<times> pyval \<times> str \<times> target_val)" where
  "translate_params e r =
     (let given = (case req_alternatives r of None \<Rightarrow> AInt 0 | Some v \<Rightarrow> v) in
      case (if is_json r
            then (case py_int_val (py_int e) given of
                    Inl err \<Rightarrow> Inl err
                  | Inr n \<Rightarrow> Inr (AInt n))
            else Inr given) of
        Inl err \<Rightarrow> Inl (Uncaught err)
      | Inr num_alternatives \<Rightarrow>
          (case req_q r of
             None \<Rightarrow> Inl (Abort 400 (missing_param ''q''))
           | Some q \<Rightarrow>
               if \<not> truthy q then Inl (Abort 400 (missing_param ''q''))
               else
                 (case req_source r of
                    None \<Rightarrow> Inl (Abort 400 (missing_param ''source''))
                  | Some source_lang \<Rightarrow>
                      if source_lang = [] then Inl (Abort 400 (missing_param ''source''))
                      else
                        (case req_target r of
                           None \<Rightarrow> Inl (Abort 400 (missing_param ''target''))
                         | Some target_lang \<Rightarrow>
                             if \<not> truthy_target target_lang
                             then Inl (Abort 400 (missing_param ''target''))
                             else
                               (case py_int_val (py_int e) num_alternatives of
                                  Inl ValueError \<Rightarrow>
                                    Inl (Abort 400 (lit ''Invalid request: '' @ [96] @
                                      lit ''alternatives'' @ [96] @ lit '' parameter is not a number''))
                                | Inl err \<Rightarrow> Inl (Uncaught err)
                                | Inr n \<Rightarrow>
                                    (let num_alternatives = max 0 n in
                                     if is_json r
                                     then Inr (num_alternatives, q, source_lang, target_lang)
                                     else
                                       (case q of
                                          PStr s \<Rightarrow>
                                            Inr (num_alternatives,
                                                 PStr (join_newline (splitlines [] s)),
                                                 source_lang, target_lang)
                                        | PList l \<Rightarrow> Inl (Uncaught AttributeError))))))))"

text \<open>\<open>src_texts = q if isinstance(q, list) else [q]\<close>.\<close>

fun src_texts :: "pyval \<Rightarrow> pyval list" where
  "src_texts (PList l) = l"
| "src_texts (PStr s) = [PStr s]"

subsection \<open>The batch (lines 412-458)\<close>

text \<open>
  \<open>detected_src_lang\<close> as the pair of its \<open>confidence\<close> and its \<open>language\<close>.
\<close>

definition detected_src_lang :: "bool \<Rightarrow> str \<Rightarrow> rat \<times> str" where
  "detected_src_lang translatable source_lang =
     (if translatable then (100, source_lang) else (0, lit ''en''))"

text \<open>\<open>targets\<close>, lines 424-428.\<close>

fun targets :: "env \<Rightarrow> target_val \<Rightarrow> language list" where
  "targets e (TList target_lang) = filter (\<lambda>l. code l \<in> set target_lang) (languages e)"
| "targets e (TStr target_lang) = filter (\<lambda>l. code l = target_lang) (languages e)"

fun str_target :: "env \<Rightarrow> target_val \<Rightarrow> str" where
  "str_target e (TStr s) = s"
| "str_target e (TList l) = py_str_list e l"

definition not_available :: "language \<Rightarrow> language \<Rightarrow> str" where
  "not_available tgt_lang src_lang =
     name tgt_lang @ lit ''s ('' @ code tgt_lang @
     lit ''s) is not available as a target language from '' @
     name src_lang @ lit ''s ('' @ code src_lang @ lit ''s)''"

text \<open>
  The body of the inner loop (lines 438-448) for one text: the exception it raises, or
  \<open>translated_text\<close> and \<open>alternatives\<close>; with the calls of \<open>hypotheses\<close> it makes.
  \<open>range(1, len(hypotheses))\<close> runs over all hypotheses after the first.
\<close>

definition translate_text ::
  "env \<Rightarrow> language \<Rightarrow> language \<Rightarrow> bool \<Rightarrow> int \<Rightarrow> pyval \<Rightarrow> (exc + pyval \<times> str list) \<times> call list" where
  "translate_text e src_lang tgt_lang translatable num_alternatives text =
     (case get_translation e src_lang tgt_lang of
        None \<Rightarrow> (Inl (BadRequest (not_available tgt_lang src_lang)), [])
      | Some translator \<Rightarrow>
          if translatable then
            (case translator text (num_alternatives + 1) of
               Inl m \<Rightarrow> (Inl (EngineError m), [(src_lang, tgt_lang, text, num_alternatives + 1)])
             | Inr hypotheses \<Rightarrow>
                 (case hypotheses of
                    [] \<Rightarrow> (Inl IndexError, [(src_lang, tgt_lang, text, num_alternatives + 1)])
                  | h # hs \<Rightarrow>
                      (let translated_text = unescape e (improve_translation_formatting e text h);
                           alternatives =
                             filter_unique
                               (map (\<lambda>v. unescape e (improve_translation_formatting e text v)) hs)
                               translated_text
                       in (Inr (PStr translated_text, alternatives),
                           [(src_lang, tgt_lang, text, num_alternatives + 1)]))))
          else (Inr (text, []), []))"

text \<open>
  The state of the two loops: the dict \<open>batch_results\<close> in insertion order, the list
  \<open>batch_alternatives\<close>, and the calls of \<open>hypotheses\<close> made so far.
\<close>

record loop_state =
  batch_results :: "(str \<times> pyval list) list"
  batch_alternatives :: "str list list"
  calls :: "call list"

text \<open>
  \<open>for text in src_texts\<close>. \<open>batch_results[tgt_lang.code].append(...)\<close> changes the entry
  that line 436 has bound.
\<close>

fun for_text ::
  "env \<Rightarrow> language \<Rightarrow> language \<Rightarrow> bool \<Rightarrow> int \<Rightarrow> pyval list \<Rightarrow> loop_state \<Rightarrow>
   exc \<times> call list + loop_state" where
  "for_text e src_lang tgt_lang translatable num_alternatives [] st = Inr st"
| "for_text e src_lang tgt_lang translatable num_alternatives (text # texts) st =
     (case translate_text e src_lang tgt_lang translatable num_alternatives text of
        (Inl x, cs) \<Rightarrow> Inl (x, calls st @ cs)
      | (Inr (translated_text, alternatives), cs) \<Rightarrow>
          for_text e src_lang tgt_lang translatable num_alternatives texts
            (st\<lparr>batch_results :=
                  AList.map_entry (code tgt_lang) (\<lambda>ys. ys @ [translated_text]) (batch_results st),
                batch_alternatives := batch_alternatives st @ [alternatives],
                calls := calls st @ cs\<rparr>))"

text \<open>\<open>for tgt_lang in targets\<close>, with \<open>batch_results[tgt_lang.code] = []\<close>.\<close>

fun for_tgt_lang ::
  "env \<Rightarrow> language \<Rightarrow> bool \<Rightarrow> int \<Rightarrow> pyval list \<Rightarrow> language list \<Rightarrow> loop_state \<Rightarrow>
   exc \<times> call list + loop_state" where
  "for_tgt_lang e src_lang translatable num_alternatives texts [] st = Inr st"
| "for_tgt_lang e src_lang translatable num_alternatives texts (tgt_lang # tgts) st =
     (case for_text e src_lang tgt_lang translatable num_alternatives texts
             (st\<lparr>batch_results := AList.update (code tgt_lang) [] (batch_results st)\<rparr>) of
        Inl x \<Rightarrow> Inl x
      | Inr st' \<Rightarrow> for_tgt_lang e src_lang translatable num_alternatives texts tgts st')"

text \<open>The \<open>try\<close> block, lines 424-451.\<close>

definition try_block ::
  "env \<Rightarrow> language \<Rightarrow> bool \<Rightarrow> int \<Rightarrow> pyval list \<Rightarrow> target_val \<Rightarrow> exc \<times> call list + loop_state" where
  "try_block e src_lang translatable num_alternatives texts target_lang =
     (if targets e target_lang = []
      then Inl (BadRequest (str_target e target_lang @ lit ''s is not supported''), [])
      else for_tgt_lang e src_lang translatable num_alternatives texts (targets e target_lang)
             \<lparr>batch_results = [], batch_alternatives = [], calls = []\<rparr>)"

text \<open>
  The handler up to the end of the loops: a failure with the calls made before it, or the
  final state of the loops. Every exception of the \<open>try\<close> block is caught by
  \<open>except Exception\<close>, which aborts with status 500.
\<close>

definition translate_run :: "env \<Rightarrow> request \<Rightarrow> failure \<times> call list + loop_state" where
  "translate_run e r =
     (case translate_params e r of
        Inl f \<Rightarrow> Inl (f, [])
      | Inr (num_alternatives, q, source_lang, target_lang) \<Rightarrow>
          (let translatable = detect_translatable (PList (src_texts q));
               detected = detected_src_lang translatable source_lang
           in case find (\<lambda>l. code l = snd detected) (languages e) of
                None \<Rightarrow> Inl (Abort 400 (source_lang @ lit ''s is not supported''), [])
              | Some src_lang \<Rightarrow>
                  (case try_block e src_lang translatable num_alternatives (src_texts q) target_lang of
                     Inl (x, cs) \<Rightarrow>
                       Inl (Abort 500 (lit ''Cannot translate text: '' @ str_exc x @ lit ''s''), cs)
                   | Inr st \<Rightarrow> Inr st)))"

text \<open>
  The handler: the failure, or the dict under \<open>"translatedText"\<close> of the response; and the
  calls of \<open>hypotheses\<close> it has made.
\<close>

definition translate :: "env \<Rightarrow> request \<Rightarrow> (failure + (str \<times> pyval list) list) \<times> call list" where
  "translate e r =
     (case translate_run e r of
        Inl (f, cs) \<Rightarrow> (Inl f, cs)
      | Inr st \<Rightarrow> (Inr (batch_results st), calls st))"

text \<open>The segments of a request as it arrives, before line 406.\<close>

definition input_segments :: "request \<Rightarrow> pyval list" where
  "input_segments r = (case req_q r of None \<Rightarrow> [] | Some q \<Rightarrow> src_texts q)"

subsection \<open>A concrete registry and concrete requests\<close>

text \<open>
  Three languages; translators from English to Spanish and from Spanish to French only.
  The engine knows one text: for \<open>"Hello"\<close> it returns at most \<open>n\<close> of five hypotheses, for
  any other text it raises an exception whose \<open>str\<close> is \<open>"boom"\<close>.
\<close>

definition en :: language where
  "en = \<lparr>code = lit ''en'', name = lit ''English''\<rparr>"

definition es :: language where
  "es = \<lparr>code = lit ''es'', name = lit ''Spanish''\<rparr>"

definition fr :: language where
  "fr = \<lparr>code = lit ''fr'', name = lit ''French''\<rparr>"

definition example_hypotheses :: translator where
  "example_hypotheses seg n =
     (if seg = PStr (lit ''Hello'')
      then Inr (take (nat n) [lit ''Hola'', lit ''Hola'', [], lit ''Buenas'', lit ''Buenas''])
      else Inl (lit ''boom''))"

definition example_get_translation :: "language \<Rightarrow> language \<Rightarrow> translator option" where
  "example_get_translation src_lang tgt_lang =
     (if code src_lang = lit ''en'' \<and> code tgt_lang = lit ''es'' then Some example_hypotheses
      else if code src_lang = lit ''es'' \<and> code tgt_lang = lit ''fr'' then Some example_hypotheses
      else None)"

definition keep_value :: "pyval \<Rightarrow> str \<Rightarrow> str" where
  "keep_value seg v = v"

definition example_env :: env where
  "example_env =
     \<lparr>languages = [en, es, fr], get_translation = example_get_translation,
      improve_translation_formatting = keep_value, unescape = id,
      py_int = int_of_ascii_digits, py_str_list = concat\<rparr>"

definition json_request :: "pyval \<Rightarrow> string \<Rightarrow> string \<Rightarrow> alt_val option \<Rightarrow> request" where
  "json_request q' source' target' alternatives' =
     \<lparr>is_json = True, req_q = Some q', req_source = Some (lit source'),
      req_target = Some (TStr (lit target')), req_alternatives = alternatives'\<rparr>"

definition form_request :: "str \<Rightarrow> string \<Rightarrow> string \<Rightarrow> alt_val option \<Rightarrow> request" where
  "form_request q' source' target' alternatives' =
     \<lparr>is_json = False, req_q = Some (PStr q'), req_source = Some (lit source'),
      req_target = Some (TStr (lit target')), req_alternatives = alternatives'\<rparr>"

section \<open>Properties of the classifier\<close>

lemma in_emojis_iff:
  "ch \<in> emojis \<longleftrightarrow>
     ch = 32 \<or> (0x1F600 \<le> ch \<and> ch < 0x1F64F) \<or> (0x1F300 \<le> ch \<and> ch < 0x1F5FF) \<or>
     (0x1F680 \<le> ch \<and> ch < 0x1F6FF) \<or> (0x2600 \<le> ch \<and> ch < 0x26FF) \<or>
     (0x2700 \<le> ch \<and> ch < 0x27BF) \<or> (0xFE00 \<le> ch \<and> ch < 0xFE0F) \<or>
     (0x1F900 \<le> ch \<and> ch < 0x1F9FF) \<or> (0x1F1E6 \<le> ch \<and> ch < 0x1F1FF) \<or>
     (0x20D0 \<le> ch \<and> ch < 0x20FF)"
  unfolding emojis_def set_append set_upt by auto

lemma for_ch_iff: "for_ch s \<longleftrightarrow> (\<exists>ch \<in> set s. ch \<notin> emojis)"
  by (induction s) auto

text \<open>
  Claim C2. The classifier is false on every string all of whose code points are in
  \<open>emojis\<close> (the empty string and the empty list of segments included), true on every string
  with a code point outside \<open>emojis\<close>, and on a list of segments it is true iff one of the
  segments is translatable.
\<close>

theorem detect_translatable_spec:
  "(set s \<subseteq> emojis \<longrightarrow> \<not> detect_translatable (PStr s)) \<and>
   \<not> detect_translatable (PStr []) \<and>
   \<not> detect_translatable (PList []) \<and>
   ((\<exists>ch \<in> set s. ch \<notin> emojis) \<longrightarrow> detect_translatable (PStr s)) \<and>
   (detect_translatable (PList ts) \<longleftrightarrow> (\<exists>t \<in> set ts. detect_translatable t))"
  by (auto simp: for_ch_iff list_ex_iff)

theorem detect_translatable_spec_witness:
  "set [0x1F600, 32] \<subseteq> emojis \<and> \<not> detect_translatable (PStr [0x1F600, 32]) \<and>
   (\<exists>ch \<in> set [0x1F600, 72, 105]. ch \<notin> emojis) \<and> detect_translatable (PStr [0x1F600, 72, 105]) \<and>
   (\<exists>t \<in> set [PStr [32], PStr [72, 105]]. detect_translatable t) \<and>
   detect_translatable (PList [PStr [32], PStr [72, 105]])"
proof -
  have a: "set [0x1F600, 32] \<subseteq> emojis" by (simp add: in_emojis_iff)
  have b: "\<exists>ch \<in> set [0x1F600, 72, 105::nat]. ch \<notin> emojis" by (simp add: in_emojis_iff)
  have c: "\<exists>t \<in> set [PStr [32], PStr [72, 105]]. detect_translatable t"
    by (simp add: in_emojis_iff)
  from detect_translatable_spec [of "[0x1F600, 32]" "[]"] a
  have 1: "\<not> detect_translatable (PStr [0x1F600, 32])" by blast
  from detect_translatable_spec [of "[0x1F600, 72, 105]" "[PStr [32], PStr [72, 105]]"] b c
  have 2: "detect_translatable (PStr [0x1F600, 72, 105])"
    and 3: "detect_translatable (PList [PStr [32], PStr [72, 105]])" by blast+
  from a b c 1 2 3 show ?thesis by blast
qed

section \<open>Properties of the quota rule builder\<close>


lemma py_trunc_of_int [simp]: "py_trunc (of_int i) = i"
  by (simp add: py_trunc_def)

lemma py_trunc_numeral [simp]: "py_trunc (numeral k) = numeral k"
  using py_trunc_of_int [of "numeral k"] by simp










section \<open>Properties of the deduplication and of the loops\<close>


lemma remdups_snoc: "remdups (zs @ [x]) = remdups (filter (\<lambda>z. z \<noteq> x) zs) @ [x]"
  by (induction zs) auto

lemma filter_unique_loop_eq:
  "filter_unique_loop xs seen = rev (remdups (rev (filter (\<lambda>x. x \<notin> seen) xs)))"
proof (induction xs arbitrary: seen)
  case Nil
  then show ?case by simp
next
  case (Cons x xs)
  show ?case
  proof (cases "x \<in> seen")
    case True
    then show ?thesis using Cons [of seen] by simp
  next
    case False
    have "filter (\<lambda>y. y \<notin> insert x seen) xs = filter (\<lambda>z. z \<noteq> x) (filter (\<lambda>y. y \<notin> seen) xs)"
      by (simp add: conj_commute)
    then show ?thesis using False Cons [of "insert x seen"]
      by (simp add: remdups_snoc rev_filter del: insert_iff)
  qed
qed

lemma filter_unique_loop_set: "set (filter_unique_loop xs seen) = set xs - seen"
  by (induction xs arbitrary: seen) auto

lemma filter_unique_loop_distinct: "distinct (filter_unique_loop xs seen)"
  by (induction xs arbitrary: seen) (auto simp: filter_unique_loop_set)

lemma filter_unique_loop_subseq: "subseq (filter_unique_loop xs seen) xs"
  by (induction xs arbitrary: seen) auto

lemma filter_unique_loop_length: "length (filter_unique_loop xs seen) \<le> length xs"
  by (induction xs arbitrary: seen) (auto simp: le_SucI)

lemma map_entry_id: "AList.map_entry k (\<lambda>ys. ys) al = al"
  by (induction al) auto

lemma map_entry_comp:
  "AList.map_entry k f (AList.map_entry k g al) = AList.map_entry k (\<lambda>v. f (g v)) al"
  by (induction al) auto

lemma for_text_Inr:
  "for_text e s t tr k texts st = Inr st' \<Longrightarrow>
   \<exists>outs. list_all2 (\<lambda>text out. translate_text e s t tr k text = (Inr (fst out, fst (snd out)), snd (snd out))) texts outs \<and>
     batch_results st' = AList.map_entry (code t) (\<lambda>ys. ys @ map fst outs) (batch_results st) \<and>
     batch_alternatives st' = batch_alternatives st @ map (\<lambda>out. fst (snd out)) outs \<and>
     calls st' = calls st @ concat (map (\<lambda>out. snd (snd out)) outs)"
proof (induction texts arbitrary: st)
  case Nil
  then show ?case by (simp add: map_entry_id)
next
  case (Cons seg texts)
  from Cons.prems obtain y alts cs where
    b: "translate_text e s t tr k seg = (Inr (y, alts), cs)"
    and r: "for_text e s t tr k texts
            (st\<lparr>batch_results := AList.map_entry (code t) (\<lambda>ys. ys @ [y]) (batch_results st),
                batch_alternatives := batch_alternatives st @ [alts],
                calls := calls st @ cs\<rparr>) = Inr st'"
    by (auto split: prod.splits sum.splits)
  from Cons.IH [OF r] obtain outs where
    o: "list_all2 (\<lambda>text out. translate_text e s t tr k text = (Inr (fst out, fst (snd out)), snd (snd out))) texts outs"
    and br: "batch_results st' = AList.map_entry (code t) (\<lambda>ys. ys @ map fst outs)
        (AList.map_entry (code t) (\<lambda>ys. ys @ [y]) (batch_results st))"
    and ba: "batch_alternatives st' = (batch_alternatives st @ [alts]) @ map (\<lambda>out. fst (snd out)) outs"
    and c: "calls st' = (calls st @ cs) @ concat (map (\<lambda>out. snd (snd out)) outs)"
    by auto
  show ?case
    apply (rule exI [of _ "(y, alts, cs) # outs"])
    using b o br ba c by (simp add: map_entry_comp)
qed

lemma for_text_total:
  "\<forall>text \<in> set texts. \<exists>out cs. translate_text e s t tr k text = (Inr out, cs) \<Longrightarrow>
   \<exists>st'. for_text e s t tr k texts st = Inr st'"
  by (induction texts arbitrary: st) (auto split: prod.splits sum.splits)

lemma for_text_Inl:
  "for_text e s t tr k texts st = Inl (x, cs) \<Longrightarrow>
   \<exists>text \<in> set texts. \<exists>cs'. translate_text e s t tr k text = (Inl x, cs')"
  by (induction texts arbitrary: st) (auto split: prod.splits sum.splits)


lemma translate_text_False:
  "translate_text e s t False k seg =
     (case get_translation e s t of
        None \<Rightarrow> (Inl (BadRequest (not_available t s)), [])
      | Some tr \<Rightarrow> (Inr (seg, []), []))"
  by (simp add: translate_text_def split: option.splits)

lemma translate_text_calls:
  "translate_text e s t tr k seg = (res, cs) \<Longrightarrow> \<not> tr \<Longrightarrow> cs = []"
  by (auto simp: translate_text_def split: option.splits)

lemma for_text_calls_False_Inl:
  "for_text e s t False k texts st = Inl (x, cs) \<Longrightarrow> cs = calls st"
proof (induction texts arbitrary: st)
  case Nil
  then show ?case by simp
next
  case (Cons seg texts)
  show ?case
  proof (cases "get_translation e s t")
    case None
    with Cons.prems show ?thesis by (simp add: translate_text_False)
  next
    case (Some tr)
    with Cons.prems have "for_text e s t False k texts
        (st\<lparr>batch_results := AList.map_entry (code t) (\<lambda>ys. ys @ [seg]) (batch_results st),
            batch_alternatives := batch_alternatives st @ [[]],
            calls := calls st @ []\<rparr>) = Inl (x, cs)"
      by (simp add: translate_text_False)
    from Cons.IH [OF this] show ?thesis by simp
  qed
qed

lemma for_text_calls_False_Inr:
  "for_text e s t False k texts st = Inr st' \<Longrightarrow> calls st' = calls st"
proof -
  assume "for_text e s t False k texts st = Inr st'"
  from for_text_Inr [OF this] obtain outs where
    o: "list_all2 (\<lambda>text out. translate_text e s t False k text =
          (Inr (fst out, fst (snd out)), snd (snd out))) texts outs"
    and c: "calls st' = calls st @ concat (map (\<lambda>out. snd (snd out)) outs)"
    by blast
  have "snd (snd out) = []" if "out \<in> set outs" for out
  proof -
    from that obtain i where "i < length outs" "outs ! i = out"
      by (auto simp: in_set_conv_nth)
    with o have "translate_text e s t False k (texts ! i) =
        (Inr (fst out, fst (snd out)), snd (snd out))"
      by (auto simp: list_all2_conv_all_nth)
    then show ?thesis by (rule translate_text_calls) simp
  qed
  then have "concat (map (\<lambda>out. snd (snd out)) outs) = []" by simp
  with c show ?thesis by simp
qed

lemma for_tgt_lang_calls_False_Inl:
  "for_tgt_lang e s False k texts tgts st = Inl (x, cs) \<Longrightarrow> cs = calls st"
proof (induction tgts arbitrary: st)
  case Nil
  then show ?case by simp
next
  case (Cons t tgts)
  let ?st0 = "st\<lparr>batch_results := AList.update (code t) [] (batch_results st)\<rparr>"
  show ?case
  proof (cases "for_text e s t False k texts ?st0")
    case (Inl p)
    with Cons.prems have "for_text e s t False k texts ?st0 = Inl (x, cs)" by simp
    from for_text_calls_False_Inl [OF this] show ?thesis by simp
  next
    case (Inr st1)
    from for_text_calls_False_Inr [OF Inr] have "calls st1 = calls st" by simp
    moreover from Inr Cons.prems have "for_tgt_lang e s False k texts tgts st1 = Inl (x, cs)"
      by simp
    from Cons.IH [OF this] have "cs = calls st1" .
    ultimately show ?thesis by simp
  qed
qed

lemma for_tgt_lang_calls_False_Inr:
  "for_tgt_lang e s False k texts tgts st = Inr st' \<Longrightarrow> calls st' = calls st"
proof (induction tgts arbitrary: st)
  case Nil
  then show ?case by simp
next
  case (Cons t tgts)
  let ?st0 = "st\<lparr>batch_results := AList.update (code t) [] (batch_results st)\<rparr>"
  from Cons.prems obtain st1 where
    1: "for_text e s t False k texts ?st0 = Inr st1"
    and 2: "for_tgt_lang e s False k texts tgts st1 = Inr st'"
    by (auto split: sum.splits)
  from for_text_calls_False_Inr [OF 1] Cons.IH [OF 2] show ?case by simp
qed

lemma for_tgt_lang_total:
  "\<forall>t \<in> set tgts. \<forall>seg \<in> set texts. \<exists>out cs. translate_text e s t tr k seg = (Inr out, cs) \<Longrightarrow>
   \<exists>st'. for_tgt_lang e s tr k texts tgts st = Inr st'"
proof (induction tgts arbitrary: st)
  case Nil
  then show ?case by simp
next
  case (Cons t tgts)
  from Cons.prems have "\<forall>seg \<in> set texts. \<exists>out cs. translate_text e s t tr k seg = (Inr out, cs)"
    by simp
  from for_text_total [OF this] obtain st1 where
    "for_text e s t tr k texts (st\<lparr>batch_results := AList.update (code t) [] (batch_results st)\<rparr>) = Inr st1"
    by blast
  moreover from Cons have "\<exists>st'. for_tgt_lang e s tr k texts tgts st1 = Inr st'" by simp
  ultimately show ?case by simp
qed

lemma for_tgt_lang_Inl:
  "for_tgt_lang e s tr k texts tgts st = Inl (x, cs) \<Longrightarrow>
   \<exists>t \<in> set tgts. \<exists>seg \<in> set texts. \<exists>cs'. translate_text e s t tr k seg = (Inl x, cs')"
proof (induction tgts arbitrary: st)
  case Nil
  then show ?case by simp
next
  case (Cons t tgts)
  then show ?case using for_text_Inl [of e s t tr k texts]
    by (fastforce split: sum.splits)
qed

lemma for_tgt_lang_all_ok:
  "for_tgt_lang e s tr k texts tgts st = Inr st' \<Longrightarrow>
   \<forall>t \<in> set tgts. \<forall>seg \<in> set texts. \<exists>out cs. translate_text e s t tr k seg = (Inr out, cs)"
proof (induction tgts arbitrary: st)
  case Nil
  then show ?case by simp
next
  case (Cons t tgts)
  from Cons.prems obtain st1 where
    1: "for_text e s t tr k texts (st\<lparr>batch_results := AList.update (code t) [] (batch_results st)\<rparr>) = Inr st1"
    and 2: "for_tgt_lang e s tr k texts tgts st1 = Inr st'"
    by (auto split: sum.splits)
  from for_text_Inr [OF 1] obtain outs where
    "list_all2 (\<lambda>text out. translate_text e s t tr k text = (Inr (fst out, fst (snd out)), snd (snd out))) texts outs"
    by blast
  then have "\<forall>seg \<in> set texts. \<exists>out cs. translate_text e s t tr k seg = (Inr out, cs)"
    by (auto simp: list_all2_conv_all_nth in_set_conv_nth)
  with Cons.IH [OF 2] show ?case by simp
qed


lemma for_tgt_lang_results:
  "for_tgt_lang e s tr k texts tgts st = Inr st' \<Longrightarrow>
   fst ` set (batch_results st') = fst ` set (batch_results st) \<union> code ` set tgts \<and>
   (\<forall>c. c \<notin> code ` set tgts \<longrightarrow> map_of (batch_results st') c = map_of (batch_results st) c) \<and>
   (\<forall>c \<in> code ` set tgts. \<exists>t \<in> set tgts. code t = c \<and>
      (\<exists>ys. map_of (batch_results st') c = Some ys \<and>
         list_all2 (\<lambda>seg y. \<exists>alts cs. translate_text e s t tr k seg = (Inr (y, alts), cs)) texts ys))"
proof (induction tgts arbitrary: st)
  case Nil
  then show ?case by simp
next
  case (Cons t tgts)
  let ?st0 = "st\<lparr>batch_results := AList.update (code t) [] (batch_results st)\<rparr>"
  from Cons.prems obtain st1 where
    1: "for_text e s t tr k texts ?st0 = Inr st1"
    and 2: "for_tgt_lang e s tr k texts tgts st1 = Inr st'"
    by (auto split: sum.splits)
  from for_text_Inr [OF 1] obtain outs where
    o: "list_all2 (\<lambda>seg out. translate_text e s t tr k seg =
          (Inr (fst out, fst (snd out)), snd (snd out))) texts outs"
    and br: "batch_results st1 = AList.map_entry (code t) (\<lambda>ys. ys @ map fst outs)
          (AList.update (code t) [] (batch_results st))"
    by auto
  from br have keys1: "fst ` set (batch_results st1) = insert (code t) (fst ` set (batch_results st))"
    by (simp add: dom_map_entry dom_update)
  from br have map1: "map_of (batch_results st1) = (map_of (batch_results st))(code t \<mapsto> map fst outs)"
    by (simp add: map_of_map_entry update_conv')
  from o have rel: "list_all2 (\<lambda>seg y. \<exists>alts cs. translate_text e s t tr k seg = (Inr (y, alts), cs))
      texts (map fst outs)"
    by (auto simp: list_all2_conv_all_nth)
  note IH = Cons.IH [OF 2]
  from IH keys1 have A: "fst ` set (batch_results st') =
      fst ` set (batch_results st) \<union> code ` set (t # tgts)"
    by auto
  from IH map1 have B: "\<forall>c. c \<notin> code ` set (t # tgts) \<longrightarrow>
      map_of (batch_results st') c = map_of (batch_results st) c"
    by auto
  have C: "\<exists>t' \<in> set (t # tgts). code t' = c \<and>
      (\<exists>ys. map_of (batch_results st') c = Some ys \<and>
         list_all2 (\<lambda>seg y. \<exists>alts cs. translate_text e s t' tr k seg = (Inr (y, alts), cs)) texts ys)"
    if c: "c \<in> code ` set (t # tgts)" for c
  proof (cases "c \<in> code ` set tgts")
    case True
    with IH show ?thesis by auto
  next
    case False
    with c have ct: "c = code t" by auto
    from IH False have "map_of (batch_results st') c = map_of (batch_results st1) c" by blast
    with map1 ct have "map_of (batch_results st') c = Some (map fst outs)" by simp
    with rel ct show ?thesis by auto
  qed
  from A B C show ?case by blast
qed

lemma for_tgt_lang_alternatives:
  "for_tgt_lang e s tr k texts tgts st = Inr st' \<Longrightarrow>
   length (batch_alternatives st') = length (batch_alternatives st) + length tgts * length texts \<and>
   (\<forall>alts \<in> set (batch_alternatives st'). alts \<in> set (batch_alternatives st) \<or>
      (\<exists>t \<in> set tgts. \<exists>seg \<in> set texts. \<exists>y cs.
          translate_text e s t tr k seg = (Inr (y, alts), cs)))"
proof (induction tgts arbitrary: st)
  case Nil
  then show ?case by simp
next
  case (Cons t tgts)
  let ?st0 = "st\<lparr>batch_results := AList.update (code t) [] (batch_results st)\<rparr>"
  from Cons.prems obtain st1 where
    1: "for_text e s t tr k texts ?st0 = Inr st1"
    and 2: "for_tgt_lang e s tr k texts tgts st1 = Inr st'"
    by (auto split: sum.splits)
  from for_text_Inr [OF 1] obtain outs where
    o: "list_all2 (\<lambda>seg out. translate_text e s t tr k seg =
          (Inr (fst out, fst (snd out)), snd (snd out))) texts outs"
    and ba: "batch_alternatives st1 = batch_alternatives st @ map (\<lambda>out. fst (snd out)) outs"
    by auto
  from o have len: "length outs = length texts" by (simp add: list_all2_lengthD)
  have new: "\<exists>seg \<in> set texts. \<exists>y cs. translate_text e s t tr k seg = (Inr (y, alts), cs)"
    if "alts \<in> set (map (\<lambda>out. fst (snd out)) outs)" for alts
  proof -
    from that obtain i where i: "i < length outs" "fst (snd (outs ! i)) = alts"
      by (auto simp: in_set_conv_nth)
    with o have "translate_text e s t tr k (texts ! i) = (Inr (fst (outs ! i), alts), snd (snd (outs ! i)))"
      by (auto simp: list_all2_conv_all_nth)
    moreover from i len have "texts ! i \<in> set texts" by simp
    ultimately show ?thesis by blast
  qed
  note IH = Cons.IH [OF 2]
  from IH ba len have A: "length (batch_alternatives st') =
      length (batch_alternatives st) + length (t # tgts) * length texts"
    by simp
  have B: "alts \<in> set (batch_alternatives st) \<or>
      (\<exists>t' \<in> set (t # tgts). \<exists>seg \<in> set texts. \<exists>y cs.
          translate_text e s t' tr k seg = (Inr (y, alts), cs))"
    if "alts \<in> set (batch_alternatives st')" for alts
  proof -
    from IH that consider "alts \<in> set (batch_alternatives st1)"
      | "\<exists>t' \<in> set tgts. \<exists>seg \<in> set texts. \<exists>y cs.
          translate_text e s t' tr k seg = (Inr (y, alts), cs)"
      by blast
    then show ?thesis
    proof cases
      case 1
      with ba have "alts \<in> set (batch_alternatives st) \<or>
          alts \<in> set (map (\<lambda>out. fst (snd out)) outs)"
        by simp
      then show ?thesis using new [of alts] by auto
    next
      case 2
      then show ?thesis by auto
    qed
  qed
  from A B show ?case by blast
qed

lemma emojis_no_boundary: "ch \<in> emojis \<Longrightarrow> ch \<notin> line_boundaries"
  by (auto simp: in_emojis_iff line_boundaries_def)

lemma splitlines_no_boundary:
  "set s \<inter> line_boundaries = {} \<Longrightarrow>
   splitlines cur s = (if cur @ s = [] then [] else [cur @ s])"
  by (induction cur s rule: splitlines.induct) (auto simp: line_boundaries_def)

lemma join_splitlines_id:
  "set s \<inter> line_boundaries = {} \<Longrightarrow> join_newline (splitlines [] s) = s"
  by (simp add: splitlines_no_boundary)

lemma normalize_not_translatable:
  "\<not> detect_translatable (PStr s) \<Longrightarrow> join_newline (splitlines [] s) = s"
  by (rule join_splitlines_id) (auto simp: for_ch_iff dest: emojis_no_boundary)

lemma truthy_src_texts: "truthy q \<Longrightarrow> src_texts q \<noteq> []"
  by (cases q) auto

lemma translate_params_Inr:
  assumes "translate_params e r = Inr (k, q, sl, tv)"
  shows "0 \<le> k" and "src_texts q \<noteq> []" and "sl \<noteq> []" and "truthy_target tv"
    and "req_source r = Some sl" and "req_target r = Some tv"
    and "\<exists>q0. req_q r = Some q0 \<and> truthy q0 \<and>
           (if is_json r then q = q0
            else \<exists>s. q0 = PStr s \<and> q = PStr (join_newline (splitlines [] s)))"
  using assms unfolding translate_params_def Let_def
  by (auto split: if_splits option.splits sum.splits py_error.splits pyval.splits
           dest: truthy_src_texts)

section \<open>Properties of the handler\<close>


lemma filter_unique_eq:
  "filter_unique xs p = rev (remdups (rev (filter (\<lambda>x. x \<noteq> p \<and> x \<noteq> []) xs)))"
  by (simp add: filter_unique_def filter_unique_loop_eq)

lemma filter_unique_set: "set (filter_unique xs p) = set xs - {p, []}"
  by (simp add: filter_unique_def filter_unique_loop_set)

lemma filter_unique_distinct: "distinct (filter_unique xs p)"
  by (simp add: filter_unique_def filter_unique_loop_distinct)

lemma filter_unique_length: "length (filter_unique xs p) \<le> length xs"
  by (simp add: filter_unique_def filter_unique_loop_length)

lemma translate_text_True_Inr:
  "translate_text e s t True k seg = (Inr (y, alts), cs) \<Longrightarrow>
   \<exists>f h hs. get_translation e s t = Some f \<and> f seg (k + 1) = Inr (h # hs) \<and>
     y = PStr (unescape e (improve_translation_formatting e seg h)) \<and>
     alts = filter_unique (map (\<lambda>v. unescape e (improve_translation_formatting e seg v)) hs)
              (unescape e (improve_translation_formatting e seg h)) \<and>
     cs = [(s, t, seg, k + 1)]"
  by (auto simp: translate_text_def Let_def split: option.splits sum.splits list.splits)

lemma translate_run_params:
  assumes "translate_params e r = Inr (k, q, sl, tv)"
  shows "translate_run e r =
     (case find (\<lambda>l. code l = snd (detected_src_lang (detect_translatable (PList (src_texts q))) sl))
             (languages e) of
        None \<Rightarrow> Inl (Abort 400 (sl @ lit ''s is not supported''), [])
      | Some src_lang \<Rightarrow>
          (case try_block e src_lang (detect_translatable (PList (src_texts q))) k (src_texts q) tv of
             Inl (x, cs) \<Rightarrow>
               Inl (Abort 500 (lit ''Cannot translate text: '' @ str_exc x @ lit ''s''), cs)
           | Inr st \<Rightarrow> Inr st))"
  by (simp add: translate_run_def assms Let_def del: detect_translatable.simps)

lemma input_segments_params:
  assumes "translate_params e r = Inr (k, q, sl, tv)"
  shows "length (src_texts q) = length (input_segments r)"
    and "\<forall>seg \<in> set (input_segments r). \<not> detect_translatable seg \<Longrightarrow> src_texts q = input_segments r"
proof -
  from translate_params_Inr(7) [OF assms] obtain q0 where
    q0: "req_q r = Some q0"
    and rel: "if is_json r then q = q0
              else \<exists>s. q0 = PStr s \<and> q = PStr (join_newline (splitlines [] s))"
    by blast
  from q0 have i: "input_segments r = src_texts q0" by (simp add: input_segments_def)
  from rel show "length (src_texts q) = length (input_segments r)"
    by (auto simp: i split: if_splits)
  assume n: "\<forall>seg \<in> set (input_segments r). \<not> detect_translatable seg"
  show "src_texts q = input_segments r"
  proof (cases "is_json r")
    case True
    with rel i show ?thesis by simp
  next
    case False
    with rel obtain s where s: "q0 = PStr s" "q = PStr (join_newline (splitlines [] s))"
      by auto
    with n i have "\<not> detect_translatable (PStr s)" by simp
    then have "join_newline (splitlines [] s) = s" by (rule normalize_not_translatable)
    with s i show ?thesis by simp
  qed
qed

lemma passthrough_no_calls:
  assumes "\<forall>seg \<in> set (input_segments r). \<not> detect_translatable seg"
  shows "snd (translate e r) = []"
proof (cases "translate_params e r")
  case (Inl f)
  then show ?thesis by (simp add: translate_def translate_run_def)
next
  case (Inr p)
  then obtain k q sl tv where p: "translate_params e r = Inr (k, q, sl, tv)"
    by (cases p) auto
  from input_segments_params(2) [OF p assms] assms
  have nt: "\<not> detect_translatable (PList (src_texts q))"
    by (simp add: list_ex_iff)
  show ?thesis
  proof (cases "find (\<lambda>l. code l = lit ''en'') (languages e)")
    case None
    with p nt show ?thesis
      by (simp add: translate_def translate_run_params detected_src_lang_def)
  next
    case (Some src_lang)
    show ?thesis
    proof (cases "try_block e src_lang False k (src_texts q) tv")
      case (Inl xc)
      obtain x cs where xc: "xc = (x, cs)" by (cases xc)
      with Inl have "cs = []"
        by (auto simp: try_block_def split: if_splits dest: for_tgt_lang_calls_False_Inl)
      with p nt Some Inl xc show ?thesis
        by (simp add: translate_def translate_run_params detected_src_lang_def)
    next
      case (Inr st)
      then have "calls st = []"
        by (auto simp: try_block_def split: if_splits dest: for_tgt_lang_calls_False_Inr)
      with p nt Some Inr show ?thesis
        by (simp add: translate_def translate_run_params detected_src_lang_def)
    qed
  qed
qed

text \<open>
  Claim C1, amended. When every segment of the request is non-translatable, the handler
  makes no call of \<open>hypotheses\<close>, whatever its outcome. When moreover the request passes the
  parameter checks, English is a registered language, the request names a registered target,
  and English has a translator to every validated target, the handler returns a result whose
  keys are the codes of the validated targets and whose value for each of them is the list
  of input segments, unchanged.
\<close>

theorem passthrough_verbatim:
  "(\<forall>seg \<in> set (input_segments r). \<not> detect_translatable seg) \<longrightarrow>
     snd (translate e r) = [] \<and>
     (translate_params e r = Inr (k, q, sl, tv) \<longrightarrow>
      find (\<lambda>l. code l = lit ''en'') (languages e) = Some src_lang \<longrightarrow>
      targets e tv \<noteq> [] \<longrightarrow>
      (\<forall>t \<in> set (targets e tv). get_translation e src_lang t \<noteq> None) \<longrightarrow>
        (\<exists>res. translate e r = (Inr res, []) \<and>
           fst ` set res = code ` set (targets e tv) \<and>
           (\<forall>t \<in> set (targets e tv). map_of res (code t) = Some (input_segments r))))"
proof (intro impI conjI)
  assume n: "\<forall>seg \<in> set (input_segments r). \<not> detect_translatable seg"
  then show "snd (translate e r) = []" by (rule passthrough_no_calls)
  assume p: "translate_params e r = Inr (k, q, sl, tv)"
    and en: "find (\<lambda>l. code l = lit ''en'') (languages e) = Some src_lang"
    and ne: "targets e tv \<noteq> []"
    and tr: "\<forall>t \<in> set (targets e tv). get_translation e src_lang t \<noteq> None"
  from input_segments_params(2) [OF p n] have seg: "src_texts q = input_segments r" .
  with n have nt: "\<not> detect_translatable (PList (src_texts q))" by (simp add: list_ex_iff)
  let ?st0 = "\<lparr>batch_results = [], batch_alternatives = [], calls = []\<rparr>"
  from tr have "\<forall>t \<in> set (targets e tv). \<forall>seg \<in> set (src_texts q).
      \<exists>out cs. translate_text e src_lang t False k seg = (Inr out, cs)"
    by (auto simp: translate_text_False split: option.splits)
  from for_tgt_lang_total [OF this] obtain st where
    st: "for_tgt_lang e src_lang False k (src_texts q) (targets e tv) ?st0 = Inr st"
    by blast
  from for_tgt_lang_calls_False_Inr [OF st] have c: "calls st = []" by simp
  from st ne p nt en c have t: "translate e r = (Inr (batch_results st), [])"
    by (simp add: translate_def translate_run_params detected_src_lang_def try_block_def)
  from for_tgt_lang_results [OF st]
  have keys: "fst ` set (batch_results st) = code ` set (targets e tv)"
    and vals: "\<forall>c \<in> code ` set (targets e tv). \<exists>t \<in> set (targets e tv). code t = c \<and>
      (\<exists>ys. map_of (batch_results st) c = Some ys \<and>
         list_all2 (\<lambda>seg y. \<exists>alts cs. translate_text e src_lang t False k seg = (Inr (y, alts), cs))
           (src_texts q) ys)"
    by simp_all
  have "map_of (batch_results st) (code t) = Some (input_segments r)"
    if "t \<in> set (targets e tv)" for t
  proof -
    from vals that obtain t' ys where
      t': "t' \<in> set (targets e tv)"
      and ys: "map_of (batch_results st) (code t) = Some ys"
      and rel: "list_all2 (\<lambda>seg y. \<exists>alts cs.
          translate_text e src_lang t' False k seg = (Inr (y, alts), cs)) (src_texts q) ys"
      by force
    from rel have "list_all2 (=) (src_texts q) ys"
      by (rule list_all2_mono) (auto simp: translate_text_False split: option.splits)
    then have "src_texts q = ys" by (simp add: list_all2_eq [symmetric])
    with ys seg show ?thesis by simp
  qed
  with t keys show "\<exists>res. translate e r = (Inr res, []) \<and>
           fst ` set res = code ` set (targets e tv) \<and>
           (\<forall>t \<in> set (targets e tv). map_of res (code t) = Some (input_segments r))"
    by blast
qed


lemmas example_defs = example_env_def json_request_def form_request_def en_def es_def fr_def
  example_get_translation_def example_hypotheses_def keep_value_def lit_def

lemmas handler_defs = translate_def translate_run_def translate_params_def try_block_def
  translate_text_def detected_src_lang_def not_available_def missing_param_def
  filter_unique_def input_segments_def

theorem passthrough_verbatim_witness:
  "input_segments (json_request (PList [PStr [0x1F600], PStr [32]]) ''en'' ''es'' None) =
     [PStr [0x1F600], PStr [32]] \<and>
   \<not> detect_translatable (PStr [0x1F600]) \<and> \<not> detect_translatable (PStr [32]) \<and>
   translate_params example_env (json_request (PList [PStr [0x1F600], PStr [32]]) ''en'' ''es'' None) =
      Inr (0, PList [PStr [0x1F600], PStr [32]], lit ''en'', TStr (lit ''es'')) \<and>
   find (\<lambda>l. code l = lit ''en'') (languages example_env) = Some en \<and>
   targets example_env (TStr (lit ''es'')) = [es] \<and>
   get_translation example_env en es \<noteq> None \<and>
   snd (translate example_env
          (json_request (PList [PStr [0x1F600], PStr [32]]) ''en'' ''es'' None)) = [] \<and>
   (\<exists>res. translate example_env
             (json_request (PList [PStr [0x1F600], PStr [32]]) ''en'' ''es'' None) = (Inr res, []) \<and>
      fst ` set res = code ` set [es] \<and>
      map_of res (code es) = Some [PStr [0x1F600], PStr [32]])"
proof -
  let ?r = "json_request (PList [PStr [0x1F600], PStr [32]]) ''en'' ''es'' None"
  have i: "input_segments ?r = [PStr [0x1F600], PStr [32]]"
    by (simp add: json_request_def input_segments_def)
  have d: "\<not> detect_translatable (PStr [0x1F600])" "\<not> detect_translatable (PStr [32])"
    by (simp_all add: in_emojis_iff)
  from i d have n: "\<forall>seg \<in> set (input_segments ?r). \<not> detect_translatable seg"
    by simp
  have p: "translate_params example_env ?r =
      Inr (0, PList [PStr [0x1F600], PStr [32]], lit ''en'', TStr (lit ''es''))"
    by (simp add: example_defs handler_defs)
  have f: "find (\<lambda>l. code l = lit ''en'') (languages example_env) = Some en"
    by (simp add: example_defs)
  have t: "targets example_env (TStr (lit ''es'')) = [es]"
    by (simp add: example_defs)
  have g: "get_translation example_env en es \<noteq> None"
    by (simp add: example_defs)
  from t have t': "targets example_env (TStr (lit ''es'')) \<noteq> []" by simp
  from t g have g': "\<forall>t \<in> set (targets example_env (TStr (lit ''es''))).
      get_translation example_env en t \<noteq> None"
    by simp
  from passthrough_verbatim [of ?r example_env 0 "PList [PStr [0x1F600], PStr [32]]"
      "lit ''en''" "TStr (lit ''es'')" en] n p f t' g'
  have c: "snd (translate example_env ?r) = [] \<and>
    (\<exists>res. translate example_env ?r = (Inr res, []) \<and>
       fst ` set res = code ` set (targets example_env (TStr (lit ''es''))) \<and>
       (\<forall>t \<in> set (targets example_env (TStr (lit ''es''))).
           map_of res (code t) = Some (input_segments ?r)))"
    by blast
  then have "snd (translate example_env ?r) = [] \<and>
    (\<exists>res. translate example_env ?r = (Inr res, []) \<and>
       fst ` set res = code ` set [es] \<and>
       map_of res (code es) = Some [PStr [0x1F600], PStr [32]])"
    unfolding t i by simp
  with i d p f t g show ?thesis by blast
qed

text \<open>
  Claim C1, as stated, fails: a request for Spanish to French whose only segment is an emoji
  is checked against a translator from English to French, which the registry does not have,
  and the handler aborts although French is a validated target.
\<close>

theorem passthrough_counterexample:
  "input_segments (json_request (PStr [0x1F600]) ''es'' ''fr'' None) = [PStr [0x1F600]] \<and>
   \<not> detect_translatable (PStr [0x1F600]) \<and>
   targets example_env (TStr (lit ''fr'')) = [fr] \<and>
   translate example_env (json_request (PStr [0x1F600]) ''es'' ''fr'' None) =
     (Inl (Abort 500 (lit ''Cannot translate text: 400 Bad Request: Frenchs (frs) is not available as a target language from Englishs (ens)s'')), [])"
  by (simp add: example_defs handler_defs in_emojis_iff)


lemma try_block_fail:
  assumes "\<exists>t \<in> set (targets e tv). \<exists>seg \<in> set texts. \<exists>x cs.
      translate_text e s t T k seg = (Inl x, cs)"
  shows "\<exists>x cs. try_block e s T k texts tv = Inl (x, cs) \<and>
      (\<exists>t \<in> set (targets e tv). \<exists>seg \<in> set texts. \<exists>cs'.
          translate_text e s t T k seg = (Inl x, cs'))"
proof -
  let ?st0 = "\<lparr>batch_results = [], batch_alternatives = [], calls = []\<rparr>"
  from assms have ne: "targets e tv \<noteq> []" by auto
  show ?thesis
  proof (cases "for_tgt_lang e s T k texts (targets e tv) ?st0")
    case (Inl xc)
    obtain x cs where xc: "xc = (x, cs)" by (cases xc)
    from for_tgt_lang_Inl [OF Inl [unfolded xc]] Inl xc ne show ?thesis
      by (auto simp: try_block_def)
  next
    case (Inr st)
    from for_tgt_lang_all_ok [OF Inr] assms show ?thesis by fastforce
  qed
qed

lemma translate_text_raises:
  "get_translation e s t = Some f \<Longrightarrow> f seg (k + 1) = Inl m \<Longrightarrow>
   translate_text e s t True k seg = (Inl (EngineError m), [(s, t, seg, k + 1)])"
  by (simp add: translate_text_def)

text \<open>
  Claim C10. For a request that passes the parameter checks and whose segments are all
  non-translatable, the detected source language is \<open>"en"\<close> with confidence 0, whatever
  source the request names; the translator lookup is made from English: when English is not
  registered the handler aborts with status 400, and when English is registered and lacks a
  translator to some validated target the handler aborts (status 500, the message of the
  lookup failure for such a target inside), without any call of \<open>hypotheses\<close>.
\<close>

theorem passthrough_checks_english:
  "translate_params e r = Inr (k, q, sl, tv) \<longrightarrow>
   \<not> detect_translatable (PList (src_texts q)) \<longrightarrow>
     detected_src_lang (detect_translatable (PList (src_texts q))) sl = (0, lit ''en'') \<and>
     (find (\<lambda>l. code l = lit ''en'') (languages e) = None \<longrightarrow>
        translate e r = (Inl (Abort 400 (sl @ lit ''s is not supported'')), [])) \<and>
     (find (\<lambda>l. code l = lit ''en'') (languages e) = Some src_lang \<longrightarrow>
      (\<exists>t \<in> set (targets e tv). get_translation e src_lang t = None) \<longrightarrow>
        (\<exists>t \<in> set (targets e tv). get_translation e src_lang t = None \<and>
           translate e r =
             (Inl (Abort 500 (lit ''Cannot translate text: '' @
                     str_exc (BadRequest (not_available t src_lang)) @ lit ''s'')), [])))"
proof (intro impI conjI)
  assume p: "translate_params e r = Inr (k, q, sl, tv)"
    and nt: "\<not> detect_translatable (PList (src_texts q))"
  from nt show "detected_src_lang (detect_translatable (PList (src_texts q))) sl = (0, lit ''en'')"
    by (simp add: detected_src_lang_def)
  { assume "find (\<lambda>l. code l = lit ''en'') (languages e) = None"
    with p nt show "translate e r = (Inl (Abort 400 (sl @ lit ''s is not supported'')), [])"
      by (simp add: translate_def translate_run_params detected_src_lang_def) }
  { assume en: "find (\<lambda>l. code l = lit ''en'') (languages e) = Some src_lang"
      and ex: "\<exists>t \<in> set (targets e tv). get_translation e src_lang t = None"
    from translate_params_Inr(2) [OF p] obtain seg where seg: "seg \<in> set (src_texts q)"
      by (cases "src_texts q") auto
    from ex obtain t0 where t0: "t0 \<in> set (targets e tv)" "get_translation e src_lang t0 = None"
      by blast
    then have "translate_text e src_lang t0 False k seg =
        (Inl (BadRequest (not_available t0 src_lang)), [])"
      by (simp add: translate_text_False)
    with t0 seg have "\<exists>t \<in> set (targets e tv). \<exists>seg \<in> set (src_texts q). \<exists>x cs.
        translate_text e src_lang t False k seg = (Inl x, cs)"
      by blast
    from try_block_fail [OF this] obtain x cs t seg' cs' where
      tb: "try_block e src_lang False k (src_texts q) tv = Inl (x, cs)"
      and t: "t \<in> set (targets e tv)"
      and b: "translate_text e src_lang t False k seg' = (Inl x, cs')"
      by blast
    from b have g: "get_translation e src_lang t = None" and x: "x = BadRequest (not_available t src_lang)"
      by (auto simp: translate_text_False split: option.splits)
    from tb have "cs = []"
      by (auto simp: try_block_def split: if_splits dest: for_tgt_lang_calls_False_Inl)
    with p nt en tb x have "translate e r =
        (Inl (Abort 500 (lit ''Cannot translate text: '' @
                str_exc (BadRequest (not_available t src_lang)) @ lit ''s'')), [])"
      by (simp add: translate_def translate_run_params detected_src_lang_def)
    with t g show "\<exists>t \<in> set (targets e tv). get_translation e src_lang t = None \<and>
           translate e r =
             (Inl (Abort 500 (lit ''Cannot translate text: '' @
                     str_exc (BadRequest (not_available t src_lang)) @ lit ''s'')), [])"
      by blast }
qed

theorem passthrough_checks_english_witness:
  "translate_params example_env (json_request (PStr [0x1F600]) ''es'' ''fr'' None) =
     Inr (0, PStr [0x1F600], lit ''es'', TStr (lit ''fr'')) \<and>
   \<not> detect_translatable (PList (src_texts (PStr [0x1F600]))) \<and>
   find (\<lambda>l. code l = lit ''en'') (languages example_env) = Some en \<and>
   (\<exists>t \<in> set (targets example_env (TStr (lit ''fr''))). get_translation example_env en t = None) \<and>
   detected_src_lang (detect_translatable (PList (src_texts (PStr [0x1F600])))) (lit ''es'') =
     (0, lit ''en'') \<and>
   (\<exists>t \<in> set (targets example_env (TStr (lit ''fr''))). get_translation example_env en t = None \<and>
      translate example_env (json_request (PStr [0x1F600]) ''es'' ''fr'' None) =
        (Inl (Abort 500 (lit ''Cannot translate text: '' @
                str_exc (BadRequest (not_available t en)) @ lit ''s'')), []))"
proof -
  let ?r = "json_request (PStr [0x1F600]) ''es'' ''fr'' None"
  have p: "translate_params example_env ?r = Inr (0, PStr [0x1F600], lit ''es'', TStr (lit ''fr''))"
    by (simp add: example_defs handler_defs)
  have n: "\<not> detect_translatable (PList (src_texts (PStr [0x1F600])))"
    by (simp add: in_emojis_iff)
  have f: "find (\<lambda>l. code l = lit ''en'') (languages example_env) = Some en"
    by (simp add: example_defs)
  have g: "\<exists>t \<in> set (targets example_env (TStr (lit ''fr''))). get_translation example_env en t = None"
    by (simp add: example_defs)
  from passthrough_checks_english [of example_env ?r 0 "PStr [0x1F600]" "lit ''es''"
      "TStr (lit ''fr'')" en] p n f g
  show ?thesis by blast
qed


lemma try_block_Inr:
  "try_block e s T k texts tv = Inr st \<Longrightarrow>
   targets e tv \<noteq> [] \<and>
   for_tgt_lang e s T k texts (targets e tv)
     \<lparr>batch_results = [], batch_alternatives = [], calls = []\<rparr> = Inr st"
  by (simp add: try_block_def split: if_splits)

lemma translate_run_Inr:
  assumes "translate_params e r = Inr (k, q, sl, tv)" and "translate_run e r = Inr st"
  shows "\<exists>src_lang.
     find (\<lambda>l. code l = snd (detected_src_lang (detect_translatable (PList (src_texts q))) sl))
       (languages e) = Some src_lang \<and>
     try_block e src_lang (detect_translatable (PList (src_texts q))) k (src_texts q) tv = Inr st"
  using assms(2) unfolding translate_run_params [OF assms(1)]
  by (auto split: option.splits sum.splits prod.splits)

text \<open>
  Claim C4. When the handler returns a result, its keys are exactly the codes of the
  validated targets, and the value under each of them has as many elements as the request
  has segments, the \<open>i\<close>-th element being the \<open>translated_text\<close> that the loop body
  computes for the \<open>i\<close>-th segment and a validated target with that code.
\<close>

theorem batch_result_shape:
  "translate_params e r = Inr (k, q, sl, tv) \<longrightarrow> translate e r = (Inr res, cs) \<longrightarrow>
     fst ` set res = code ` set (targets e tv) \<and>
     (\<exists>src_lang.
        find (\<lambda>l. code l = snd (detected_src_lang (detect_translatable (PList (src_texts q))) sl))
          (languages e) = Some src_lang \<and>
        (\<forall>t0 \<in> set (targets e tv). \<exists>t \<in> set (targets e tv). code t = code t0 \<and>
           (\<exists>ys. map_of res (code t0) = Some ys \<and>
              length ys = length (input_segments r) \<and>
              list_all2 (\<lambda>seg y. \<exists>alts cs'.
                  translate_text e src_lang t (detect_translatable (PList (src_texts q))) k seg =
                    (Inr (y, alts), cs'))
                (src_texts q) ys)))"
proof (intro impI)
  assume p: "translate_params e r = Inr (k, q, sl, tv)" and t: "translate e r = (Inr res, cs)"
  let ?T = "detect_translatable (PList (src_texts q))"
  from t obtain st where run: "translate_run e r = Inr st" and res: "res = batch_results st"
    by (auto simp: translate_def split: sum.splits prod.splits)
  from translate_run_Inr [OF p run] obtain src_lang where
    f: "find (\<lambda>l. code l = snd (detected_src_lang ?T sl)) (languages e) = Some src_lang"
    and tb: "try_block e src_lang ?T k (src_texts q) tv = Inr st"
    by blast
  from try_block_Inr [OF tb] have loop: "for_tgt_lang e src_lang ?T k (src_texts q) (targets e tv)
     \<lparr>batch_results = [], batch_alternatives = [], calls = []\<rparr> = Inr st"
    by simp
  from for_tgt_lang_results [OF loop] res
  have keys: "fst ` set res = code ` set (targets e tv)"
    and vals: "\<forall>c \<in> code ` set (targets e tv). \<exists>t \<in> set (targets e tv). code t = c \<and>
      (\<exists>ys. map_of res c = Some ys \<and>
         list_all2 (\<lambda>seg y. \<exists>alts cs. translate_text e src_lang t ?T k seg = (Inr (y, alts), cs))
           (src_texts q) ys)"
    by simp_all
  have "\<exists>t \<in> set (targets e tv). code t = code t0 \<and>
           (\<exists>ys. map_of res (code t0) = Some ys \<and>
              length ys = length (input_segments r) \<and>
              list_all2 (\<lambda>seg y. \<exists>alts cs'.
                  translate_text e src_lang t ?T k seg = (Inr (y, alts), cs'))
                (src_texts q) ys)"
    if "t0 \<in> set (targets e tv)" for t0
  proof -
    from vals that obtain t' ys where
      t': "t' \<in> set (targets e tv)" "code t' = code t0"
      and ys: "map_of res (code t0) = Some ys"
      and rel: "list_all2 (\<lambda>seg y. \<exists>alts cs.
          translate_text e src_lang t' ?T k seg = (Inr (y, alts), cs)) (src_texts q) ys"
      by force
    from rel have "length ys = length (src_texts q)" by (simp add: list_all2_lengthD)
    with input_segments_params(1) [OF p] have "length ys = length (input_segments r)" by simp
    with t' ys rel show ?thesis by blast
  qed
  with keys f show "fst ` set res = code ` set (targets e tv) \<and>
     (\<exists>src_lang.
        find (\<lambda>l. code l = snd (detected_src_lang ?T sl)) (languages e) = Some src_lang \<and>
        (\<forall>t0 \<in> set (targets e tv). \<exists>t \<in> set (targets e tv). code t = code t0 \<and>
           (\<exists>ys. map_of res (code t0) = Some ys \<and>
              length ys = length (input_segments r) \<and>
              list_all2 (\<lambda>seg y. \<exists>alts cs'.
                  translate_text e src_lang t ?T k seg = (Inr (y, alts), cs'))
                (src_texts q) ys)))"
    by blast
qed

theorem batch_result_shape_witness:
  "translate_params example_env
     (json_request (PList [PStr (lit ''Hello''), PStr (lit ''Hello'')]) ''en'' ''es'' (Some (AInt 1))) =
     Inr (1, PList [PStr (lit ''Hello''), PStr (lit ''Hello'')], lit ''en'', TStr (lit ''es'')) \<and>
   translate example_env
     (json_request (PList [PStr (lit ''Hello''), PStr (lit ''Hello'')]) ''en'' ''es'' (Some (AInt 1))) =
     (Inr [(lit ''es'', [PStr (lit ''Hola''), PStr (lit ''Hola'')])],
      [(en, es, PStr (lit ''Hello''), 2), (en, es, PStr (lit ''Hello''), 2)]) \<and>
   fst ` set [(lit ''es'', [PStr (lit ''Hola''), PStr (lit ''Hola'')])] =
     code ` set (targets example_env (TStr (lit ''es'')))"
proof -
  let ?q = "PList [PStr (lit ''Hello''), PStr (lit ''Hello'')]"
  let ?r = "json_request ?q ''en'' ''es'' (Some (AInt 1))"
  have p: "translate_params example_env ?r = Inr (1, ?q, lit ''en'', TStr (lit ''es''))"
    by (simp add: example_defs handler_defs)
  have t: "translate example_env ?r =
     (Inr [(lit ''es'', [PStr (lit ''Hola''), PStr (lit ''Hola'')])],
      [(en, es, PStr (lit ''Hello''), 2), (en, es, PStr (lit ''Hello''), 2)])"
    by (simp add: example_defs handler_defs in_emojis_iff)
  from batch_result_shape [of example_env ?r 1 ?q "lit ''en''" "TStr (lit ''es'')"
      "[(lit ''es'', [PStr (lit ''Hola''), PStr (lit ''Hola'')])]"
      "[(en, es, PStr (lit ''Hello''), 2), (en, es, PStr (lit ''Hello''), 2)]"] p t
  show ?thesis by blast
qed


text \<open>
  Claim C3. For a request with translatable input and alternative count \<open>k\<close> (the value
  of \<open>num_alternatives\<close> after line 401), when the loops end and every translator returns at
  most the \<open>k + 1\<close> hypotheses asked for, \<open>batch_alternatives\<close> holds one list for each pair
  of a validated target and a segment, and each list has at most \<open>k\<close> elements, no
  duplicates, not the empty string and not the primary translation of its pair; it consists
  of the reformatted hypotheses after the first, other than the primary translation and the
  empty string, each at its first occurrence and in that order.
\<close>

theorem alternatives_unique:
  "translate_params e r = Inr (k, q, sl, tv) \<longrightarrow>
   detect_translatable (PList (src_texts q)) \<longrightarrow>
   translate_run e r = Inr st \<longrightarrow>
   (\<forall>s t f seg hs. get_translation e s t = Some f \<longrightarrow> f seg (k + 1) = Inr hs \<longrightarrow>
      length hs \<le> nat (k + 1)) \<longrightarrow>
     length (batch_alternatives st) = length (targets e tv) * length (src_texts q) \<and>
     (\<forall>alts \<in> set (batch_alternatives st).
        length alts \<le> nat k \<and> distinct alts \<and> [] \<notin> set alts \<and>
        (\<exists>src_lang t seg f h hs.
           find (\<lambda>l. code l = sl) (languages e) = Some src_lang \<and>
           t \<in> set (targets e tv) \<and> seg \<in> set (src_texts q) \<and>
           get_translation e src_lang t = Some f \<and> f seg (k + 1) = Inr (h # hs) \<and>
           unescape e (improve_translation_formatting e seg h) \<notin> set alts \<and>
           alts = rev (remdups (rev (filter
                    (\<lambda>x. x \<noteq> unescape e (improve_translation_formatting e seg h) \<and> x \<noteq> [])
                    (map (\<lambda>v. unescape e (improve_translation_formatting e seg v)) hs))))))"
proof (intro impI)
  assume p: "translate_params e r = Inr (k, q, sl, tv)"
    and T: "detect_translatable (PList (src_texts q))"
    and run: "translate_run e r = Inr st"
    and contract: "\<forall>s t f seg hs. get_translation e s t = Some f \<longrightarrow> f seg (k + 1) = Inr hs \<longrightarrow>
      length hs \<le> nat (k + 1)"
  from translate_params_Inr(1) [OF p] have k: "0 \<le> k" .
  from translate_run_Inr [OF p run] T obtain src_lang where
    f: "find (\<lambda>l. code l = sl) (languages e) = Some src_lang"
    and tb: "try_block e src_lang True k (src_texts q) tv = Inr st"
    by (auto simp: detected_src_lang_def)
  from try_block_Inr [OF tb] have loop: "for_tgt_lang e src_lang True k (src_texts q) (targets e tv)
     \<lparr>batch_results = [], batch_alternatives = [], calls = []\<rparr> = Inr st"
    by simp
  from for_tgt_lang_alternatives [OF loop]
  have len: "length (batch_alternatives st) = length (targets e tv) * length (src_texts q)"
    and each: "\<forall>alts \<in> set (batch_alternatives st).
      \<exists>t \<in> set (targets e tv). \<exists>seg \<in> set (src_texts q). \<exists>y cs.
          translate_text e src_lang t True k seg = (Inr (y, alts), cs)"
    by simp_all
  have "length alts \<le> nat k \<and> distinct alts \<and> [] \<notin> set alts \<and>
        (\<exists>src_lang t seg f h hs.
           find (\<lambda>l. code l = sl) (languages e) = Some src_lang \<and>
           t \<in> set (targets e tv) \<and> seg \<in> set (src_texts q) \<and>
           get_translation e src_lang t = Some f \<and> f seg (k + 1) = Inr (h # hs) \<and>
           unescape e (improve_translation_formatting e seg h) \<notin> set alts \<and>
           alts = rev (remdups (rev (filter
                    (\<lambda>x. x \<noteq> unescape e (improve_translation_formatting e seg h) \<and> x \<noteq> [])
                    (map (\<lambda>v. unescape e (improve_translation_formatting e seg v)) hs)))))"
    if "alts \<in> set (batch_alternatives st)" for alts
  proof -
    from each that obtain t seg y cs where
      t: "t \<in> set (targets e tv)" and seg: "seg \<in> set (src_texts q)"
      and b: "translate_text e src_lang t True k seg = (Inr (y, alts), cs)"
      by blast
    from translate_text_True_Inr [OF b] obtain g h hs where
      g: "get_translation e src_lang t = Some g" and hs: "g seg (k + 1) = Inr (h # hs)"
      and alts: "alts = filter_unique
          (map (\<lambda>v. unescape e (improve_translation_formatting e seg v)) hs)
          (unescape e (improve_translation_formatting e seg h))"
      by blast
    from contract g hs have "length (h # hs) \<le> nat (k + 1)" by blast
    with k have "length hs \<le> nat k" by simp
    with filter_unique_length [of "map (\<lambda>v. unescape e (improve_translation_formatting e seg v)) hs"
        "unescape e (improve_translation_formatting e seg h)"] alts
    have 1: "length alts \<le> nat k" by simp
    from alts have 2: "distinct alts" by (simp add: filter_unique_distinct)
    from alts have 3: "[] \<notin> set alts"
      and 4: "unescape e (improve_translation_formatting e seg h) \<notin> set alts"
      by (simp_all add: filter_unique_set)
    from alts have 5: "alts = rev (remdups (rev (filter
          (\<lambda>x. x \<noteq> unescape e (improve_translation_formatting e seg h) \<and> x \<noteq> [])
          (map (\<lambda>v. unescape e (improve_translation_formatting e seg v)) hs))))"
      by (simp only: filter_unique_eq)
    from 1 2 3 4 5 f t seg g hs show ?thesis by blast
  qed
  with len show "length (batch_alternatives st) = length (targets e tv) * length (src_texts q) \<and>
     (\<forall>alts \<in> set (batch_alternatives st).
        length alts \<le> nat k \<and> distinct alts \<and> [] \<notin> set alts \<and>
        (\<exists>src_lang t seg f h hs.
           find (\<lambda>l. code l = sl) (languages e) = Some src_lang \<and>
           t \<in> set (targets e tv) \<and> seg \<in> set (src_texts q) \<and>
           get_translation e src_lang t = Some f \<and> f seg (k + 1) = Inr (h # hs) \<and>
           unescape e (improve_translation_formatting e seg h) \<notin> set alts \<and>
           alts = rev (remdups (rev (filter
                    (\<lambda>x. x \<noteq> unescape e (improve_translation_formatting e seg h) \<and> x \<noteq> [])
                    (map (\<lambda>v. unescape e (improve_translation_formatting e seg v)) hs))))))"
    by blast
qed

theorem alternatives_unique_witness:
  "translate_params example_env (json_request (PStr (lit ''Hello'')) ''en'' ''es'' (Some (AInt 4))) =
     Inr (4, PStr (lit ''Hello''), lit ''en'', TStr (lit ''es'')) \<and>
   detect_translatable (PList (src_texts (PStr (lit ''Hello'')))) \<and>
   translate_run example_env (json_request (PStr (lit ''Hello'')) ''en'' ''es'' (Some (AInt 4))) =
     Inr \<lparr>batch_results = [(lit ''es'', [PStr (lit ''Hola'')])],
          batch_alternatives = [[lit ''Buenas'']],
          calls = [(en, es, PStr (lit ''Hello''), 5)]\<rparr> \<and>
   example_hypotheses (PStr (lit ''Hello'')) (4 + 1) =
     Inr [lit ''Hola'', lit ''Hola'', [], lit ''Buenas'', lit ''Buenas''] \<and>
   length [lit ''Buenas''] \<le> nat 4 \<and> distinct [lit ''Buenas''] \<and>
   [] \<notin> set [lit ''Buenas''] \<and> lit ''Hola'' \<notin> set [lit ''Buenas'']"
proof -
  let ?r = "json_request (PStr (lit ''Hello'')) ''en'' ''es'' (Some (AInt 4))"
  let ?st = "\<lparr>batch_results = [(lit ''es'', [PStr (lit ''Hola'')])],
          batch_alternatives = [[lit ''Buenas'']],
          calls = [(en, es, PStr (lit ''Hello''), 5)]\<rparr>"
  have p: "translate_params example_env ?r = Inr (4, PStr (lit ''Hello''), lit ''en'', TStr (lit ''es''))"
    by (simp add: example_defs handler_defs)
  have T: "detect_translatable (PList (src_texts (PStr (lit ''Hello''))))"
    by (simp add: lit_def in_emojis_iff)
  have run: "translate_run example_env ?r = Inr ?st"
    by (simp add: example_defs handler_defs in_emojis_iff)
  have h: "example_hypotheses (PStr (lit ''Hello'')) (4 + 1) =
     Inr [lit ''Hola'', lit ''Hola'', [], lit ''Buenas'', lit ''Buenas'']"
    by (simp add: example_hypotheses_def)
  have c: "\<forall>s t f seg hs. get_translation example_env s t = Some f \<longrightarrow> f seg (4 + 1) = Inr hs \<longrightarrow>
      length hs \<le> nat (4 + 1)"
    by (auto simp: example_env_def example_get_translation_def example_hypotheses_def
             split: if_splits)
  have m: "[lit ''Buenas''] \<in> set (batch_alternatives ?st)" by simp
  from alternatives_unique [of example_env ?r 4 "PStr (lit ''Hello'')" "lit ''en''"
      "TStr (lit ''es'')" ?st] p T run c
  have a: "\<forall>alts \<in> set (batch_alternatives ?st).
      length alts \<le> nat 4 \<and> distinct alts \<and> [] \<notin> set alts"
    by blast
  from a m have "length [lit ''Buenas''] \<le> nat 4 \<and> distinct [lit ''Buenas''] \<and>
      [] \<notin> set [lit ''Buenas'']"
    by blast
  moreover have "lit ''Hola'' \<notin> set [lit ''Buenas'']" by (simp add: lit_def)
  ultimately show ?thesis using p T run h by blast
qed

text \<open>
  Claim C5, as stated, fails in what the error names: when the engine raises on the second
  segment \<open>"Bye"\<close>, the message of the abort is built from \<open>"Cannot translate text: "\<close> and
  \<open>str(e)\<close>, here \<open>"boom"\<close>; the failing text does not occur in it.
\<close>

theorem engine_error_message_counterexample:
  "translate example_env
     (json_request (PList [PStr (lit ''Hello''), PStr (lit ''Bye'')]) ''en'' ''es'' None) =
     (Inl (Abort 500 (lit ''Cannot translate text: booms'')),
      [(en, es, PStr (lit ''Hello''), 1), (en, es, PStr (lit ''Bye''), 1)]) \<and>
   \<not> sublist (lit ''Bye'') (lit ''Cannot translate text: booms'')"
proof
  show "translate example_env
     (json_request (PList [PStr (lit ''Hello''), PStr (lit ''Bye'')]) ''en'' ''es'' None) =
     (Inl (Abort 500 (lit ''Cannot translate text: booms'')),
      [(en, es, PStr (lit ''Hello''), 1), (en, es, PStr (lit ''Bye''), 1)])"
    by (simp add: example_defs handler_defs in_emojis_iff)
  show "\<not> sublist (lit ''Bye'') (lit ''Cannot translate text: booms'')"
    by (simp add: lit_def sublist_code)
qed

text \<open>
  Claim C5, amended. For a request with translatable input that passes the parameter checks
  and whose source language is registered, if the translator raises on some pair of a
  validated target and a segment, the handler returns no result: it aborts with status 500
  and a message that starts with \<open>"Cannot translate text: "\<close> followed by \<open>str(x)\<close>, where
  \<open>x\<close> is an exception raised by the loop body for one of the pairs. The message names the
  exception, not the text; the results of earlier pairs are not returned.
\<close>

theorem batch_all_or_nothing:
  "translate_params e r = Inr (k, q, sl, tv) \<longrightarrow>
   detect_translatable (PList (src_texts q)) \<longrightarrow>
   find (\<lambda>l. code l = sl) (languages e) = Some src_lang \<longrightarrow>
   (\<exists>t \<in> set (targets e tv). \<exists>seg \<in> set (src_texts q). \<exists>f m.
       get_translation e src_lang t = Some f \<and> f seg (k + 1) = Inl m) \<longrightarrow>
     (\<exists>x msg cs. translate e r = (Inl (Abort 500 msg), cs) \<and>
        prefix (lit ''Cannot translate text: '' @ str_exc x) msg \<and>
        (\<exists>t \<in> set (targets e tv). \<exists>seg \<in> set (src_texts q). \<exists>cs'.
            translate_text e src_lang t True k seg = (Inl x, cs')))"
proof (intro impI)
  assume p: "translate_params e r = Inr (k, q, sl, tv)"
    and T: "detect_translatable (PList (src_texts q))"
    and f: "find (\<lambda>l. code l = sl) (languages e) = Some src_lang"
    and ex: "\<exists>t \<in> set (targets e tv). \<exists>seg \<in> set (src_texts q). \<exists>f m.
       get_translation e src_lang t = Some f \<and> f seg (k + 1) = Inl m"
  from ex have "\<exists>t \<in> set (targets e tv). \<exists>seg \<in> set (src_texts q). \<exists>x cs.
      translate_text e src_lang t True k seg = (Inl x, cs)"
    using translate_text_raises by blast
  from try_block_fail [OF this] obtain x cs where
    tb: "try_block e src_lang True k (src_texts q) tv = Inl (x, cs)"
    and b: "\<exists>t \<in> set (targets e tv). \<exists>seg \<in> set (src_texts q). \<exists>cs'.
          translate_text e src_lang t True k seg = (Inl x, cs')"
    by blast
  from p T f tb have "translate e r =
      (Inl (Abort 500 (lit ''Cannot translate text: '' @ str_exc x @ lit ''s'')), cs)"
    by (simp add: translate_def translate_run_params detected_src_lang_def)
  moreover have "prefix (lit ''Cannot translate text: '' @ str_exc x)
      (lit ''Cannot translate text: '' @ str_exc x @ lit ''s'')"
    by (simp add: prefix_def)
  ultimately show "\<exists>x msg cs. translate e r = (Inl (Abort 500 msg), cs) \<and>
        prefix (lit ''Cannot translate text: '' @ str_exc x) msg \<and>
        (\<exists>t \<in> set (targets e tv). \<exists>seg \<in> set (src_texts q). \<exists>cs'.
            translate_text e src_lang t True k seg = (Inl x, cs'))"
    using b by blast
qed

theorem batch_all_or_nothing_witness:
  "translate_params example_env
     (json_request (PList [PStr (lit ''Hello''), PStr (lit ''Bye'')]) ''en'' ''es'' None) =
     Inr (0, PList [PStr (lit ''Hello''), PStr (lit ''Bye'')], lit ''en'', TStr (lit ''es'')) \<and>
   detect_translatable (PList (src_texts (PList [PStr (lit ''Hello''), PStr (lit ''Bye'')]))) \<and>
   find (\<lambda>l. code l = lit ''en'') (languages example_env) = Some en \<and>
   (\<exists>t \<in> set (targets example_env (TStr (lit ''es''))).
     \<exists>seg \<in> set (src_texts (PList [PStr (lit ''Hello''), PStr (lit ''Bye'')])). \<exists>f m.
       get_translation example_env en t = Some f \<and> f seg (0 + 1) = Inl m) \<and>
   (\<exists>x msg cs. translate example_env
        (json_request (PList [PStr (lit ''Hello''), PStr (lit ''Bye'')]) ''en'' ''es'' None) =
          (Inl (Abort 500 msg), cs) \<and>
        prefix (lit ''Cannot translate text: '' @ str_exc x) msg)"
proof -
  let ?q = "PList [PStr (lit ''Hello''), PStr (lit ''Bye'')]"
  let ?r = "json_request ?q ''en'' ''es'' None"
  have p: "translate_params example_env ?r = Inr (0, ?q, lit ''en'', TStr (lit ''es''))"
    by (simp add: example_defs handler_defs)
  have T: "detect_translatable (PList (src_texts ?q))"
    by (simp add: lit_def in_emojis_iff)
  have f: "find (\<lambda>l. code l = lit ''en'') (languages example_env) = Some en"
    by (simp add: example_defs)
  have "get_translation example_env en es = Some example_hypotheses \<and>
      example_hypotheses (PStr (lit ''Bye'')) (0 + 1) = Inl (lit ''boom'')"
    by (simp add: example_defs)
  moreover have "es \<in> set (targets example_env (TStr (lit ''es'')))"
    by (simp add: example_defs)
  ultimately have ex: "\<exists>t \<in> set (targets example_env (TStr (lit ''es''))).
     \<exists>seg \<in> set (src_texts ?q). \<exists>f m.
       get_translation example_env en t = Some f \<and> f seg (0 + 1) = Inl m"
    by (intro bexI [of _ es] bexI [of _ "PStr (lit ''Bye'')"] exI) auto
  from batch_all_or_nothing [of example_env ?r 0 ?q "lit ''en''" "TStr (lit ''es'')" en] p T f ex
  show ?thesis by blast
qed

text \<open>
  Claim C6 at a concrete request: English has no translator to French in the registry. The
  \<open>abort(400, ...)\<close> of line 440 is raised inside the \<open>try\<close> block and caught by
  \<open>except Exception\<close>, so the handler aborts with status 500; the description of the 400
  is the tail of the message.
\<close>

theorem unavailable_pair_status_500:
  "translate example_env (json_request (PStr (lit ''Hello'')) ''en'' ''fr'' None) =
     (Inl (Abort 500 (lit ''Cannot translate text: 400 Bad Request: Frenchs (frs) is not available as a target language from Englishs (ens)s'')), [])"
  by (simp add: example_defs handler_defs in_emojis_iff)

text \<open>
  Claim C7 at a concrete request: for a JSON request whose \<open>alternatives\<close> is the string
  \<open>"abc"\<close>, \<open>int\<close> raises \<open>ValueError\<close> at line 386, outside the \<open>try\<close> of line 400, and no
  \<open>abort(400)\<close> is made; the same parameters as a form request are rejected with status 400.
\<close>

theorem json_alternatives_not_a_number:
  "translate example_env
     (json_request (PStr (lit ''Hello'')) ''en'' ''es'' (Some (AStr (lit ''abc'')))) =
     (Inl (Uncaught ValueError), []) \<and>
   translate example_env
     (form_request (lit ''Hello'') ''en'' ''es'' (Some (AStr (lit ''abc'')))) =
     (Inl (Abort 400 (lit ''Invalid request: '' @ [96] @ lit ''alternatives'' @ [96] @
        lit '' parameter is not a number'')), [])"
  by (simp add: example_defs handler_defs int_of_ascii_digits_def)

end
